theory Spec2Isabelle
  imports Main "HOL-Library.Word"
begin

section \<open>The WebSocket cycle of mangum/protocols/websockets.py\<close>

text \<open>
  The module defines one enumeration, \<open>WebSocketCycleState\<close>, and one dataclass,
  \<open>WebSocketCycle\<close>, with the methods \<open>__post_init__\<close>, \<open>__call__\<close>, \<open>run\<close>,
  \<open>receive\<close> and \<open>send\<close>. The embedding below follows the source method by method.

  What is made explicit:
  \<^item> the mutable object \<open>self\<close> is a record that every method takes and returns;
  \<^item> \<open>asyncio.Queue()\<close> (no maximum size, first in first out) is a list: \<open>put\<close>
    appends at the end and never waits, \<open>get\<close> takes the head and waits while the
    list is empty;
  \<^item> the ASGI application, an argument of \<open>__call__\<close>, is a function from the scope
    to a tree of the interactions it has with the cycle: it returns, raises, awaits
    \<open>receive()\<close>, awaits \<open>send(message)\<close>, or never completes by itself;
  \<^item> an awaited coroutine has three outcomes: it returns, it raises, or it is
    never resumed. The application is the only task of the loop that
    \<open>run_until_complete\<close> drives, so a \<open>get\<close> on the empty queue is never resumed.
  The two logger calls write to the process-wide logger only and are left out.
\<close>

subsection \<open>Data\<close>

type_synonym bytes = "8 word list"

text \<open>The values of a \<open>Dict[str, Any]\<close>, as far as ASGI messages use them.\<close>

datatype any = AStr string | ABytes bytes | AInt int | ANone | AList "any list"

text \<open>The element type of the queue: \<open>typing.Dict[str, typing.Any]\<close>.\<close>

type_synonym message = "string \<rightharpoonup> any"

datatype WebSocketCycleState = CONNECTING | HANDSHAKE | RESPONSE | DISCONNECTING | CLOSED

text \<open>
  The exceptions that the handlers of \<open>run\<close> tell apart. \<open>WebSocketClosed\<close> and
  \<open>UnexpectedMessage\<close> are imported from \<open>..exceptions\<close> as two classes;
  \<open>OtherException\<close> stands for every other \<open>BaseException\<close>, with its class name.
\<close>

datatype exn = WebSocketClosed | UnexpectedMessage | OtherException string

text \<open>
  Modelled from the spec: \<open>Response\<close> is imported from \<open>..types\<close>, which is not among
  the sources. The source builds it as \<open>Response(200, [], b"")\<close> and assigns its
  \<open>status\<close>; the spec describes the result as a status code, an ordered list of
  (name, value) headers and a byte body.
\<close>

record Response =
  status :: int
  headers :: "(bytes \<times> bytes) list"
  body :: bytes

text \<open>
  Modelled from the spec: \<open>WsRequest\<close> is imported from \<open>..types\<close> as well. The source
  reads its \<open>scope\<close> only, which the spec calls opaque; its type is a parameter.
\<close>

record 's WsRequest =
  scope :: 's

text \<open>
  The dataclass. \<open>request\<close>, \<open>message_type\<close>, \<open>connection_id\<close> and \<open>state\<close> are its
  declared fields; \<open>app_queue\<close>, \<open>body\<close> (here \<open>body_io\<close>, the name \<open>body\<close> being the
  response's) and \<open>response\<close> are set by \<open>__post_init__\<close>; \<open>initial_body\<close> is set by
  \<open>__call__\<close> and does not exist before (\<open>None\<close>).
\<close>

record 's WebSocketCycle =
  request :: "'s WsRequest"
  message_type :: string
  connection_id :: string
  state :: WebSocketCycleState
  app_queue :: "message list"
  body_io :: bytes
  response :: Response
  initial_body :: "bytes option"

subsection \<open>The application and the outcome of a coroutine\<close>

datatype app_task =
    Return
  | Raise exn
  | Receive "message \<Rightarrow> app_task"
  | Send message app_task
  | Forever

type_synonym 's ASGIApp = "'s \<Rightarrow> app_task"

datatype 'a outcome = Returns 'a | Raises exn | Suspended

subsection \<open>Construction\<close>

text \<open>
  \<^verbatim>\<open>
  def __post_init__(self) -> None:
      self.logger = logging.getLogger("mangum.websocket")
      self.loop = asyncio.get_event_loop()
      self.app_queue = asyncio.Queue()
      self.body = BytesIO()
      self.response = Response(200, [], b"")
  \<close>
\<close>

definition post_init :: "'s WebSocketCycle \<Rightarrow> 's WebSocketCycle" where
  "post_init self =
     self\<lparr>app_queue := [], body_io := [],
          response := \<lparr>status = 200, headers = [], body = []\<rparr>\<rparr>"

text \<open>
  The constructor that \<open>@dataclass\<close> generates: it stores the four declared fields,
  \<open>state\<close> defaulting to \<open>CONNECTING\<close> when the caller gives none, and then runs
  \<open>__post_init__\<close>, which sets the other attributes.
\<close>

definition new_WebSocketCycle ::
  "'s WsRequest \<Rightarrow> string \<Rightarrow> string \<Rightarrow> WebSocketCycleState option \<Rightarrow> 's WebSocketCycle" where
  "new_WebSocketCycle req mt cid st =
     post_init
       \<lparr>request = req, message_type = mt, connection_id = cid,
        state = (case st of None \<Rightarrow> CONNECTING | Some s \<Rightarrow> s),
        app_queue = [], body_io = [],
        response = \<lparr>status = 200, headers = [], body = []\<rparr>,
        initial_body = None\<rparr>"

subsection \<open>The two capabilities handed to the application\<close>

text \<open>
  \<^verbatim>\<open>
  async def receive(self) -> Message:
      return await self.app_queue.get()
  \<close>
  \<open>None\<close>: the queue is empty and the caller waits.
\<close>

definition receive :: "'s WebSocketCycle \<Rightarrow> (message \<times> 's WebSocketCycle) option" where
  "receive self =
     (case app_queue self of
        [] \<Rightarrow> None
      | m # q \<Rightarrow> Some (m, self\<lparr>app_queue := q\<rparr>))"

text \<open>
  \<^verbatim>\<open>
  async def send(self, message: Message) -> None:
      return await self.app_queue.put(message)
  \<close>
\<close>

definition send :: "'s WebSocketCycle \<Rightarrow> message \<Rightarrow> 's WebSocketCycle" where
  "send self m = self\<lparr>app_queue := app_queue self @ [m]\<rparr>"

subsection \<open>Running the application\<close>

text \<open>
  The loop drives the application's coroutine, which calls back into \<open>receive\<close> and
  \<open>send\<close> of the same cycle. The result is the outcome of the coroutine and the cycle
  as the coroutine left it.
\<close>

primrec await_app :: "app_task \<Rightarrow> 's WebSocketCycle \<Rightarrow> unit outcome \<times> 's WebSocketCycle" where
  "await_app Return = (\<lambda>self. (Returns (), self))"
| "await_app (Raise e) = (\<lambda>self. (Raises e, self))"
| "await_app (Receive k) =
     (\<lambda>self. case receive self of
        None \<Rightarrow> (Suspended, self)
      | Some (m, self') \<Rightarrow> await_app (k m) self')"
| "await_app (Send m k) = (\<lambda>self. await_app k (send self m))"
| "await_app Forever = (\<lambda>self. (Suspended, self))"

text \<open>
  \<^verbatim>\<open>
  async def run(self, app: ASGIApp) -> None:
      try:
          await app(self.request.scope, self.receive, self.send)
      except WebSocketClosed:
          self.response.status = 403
      except UnexpectedMessage:
          self.response.status = 500
      except BaseException as exc:
          self.logger.error("Exception in ASGI application", exc_info=exc)
          self.response.status = 500
  \<close>
\<close>

definition set_status :: "'s WebSocketCycle \<Rightarrow> int \<Rightarrow> 's WebSocketCycle" where
  "set_status self n = self\<lparr>response := (response self)\<lparr>status := n\<rparr>\<rparr>"

definition run :: "'s WebSocketCycle \<Rightarrow> 's ASGIApp \<Rightarrow> unit outcome \<times> 's WebSocketCycle" where
  "run self app =
     (case await_app (app (scope (request self))) self of
        (Returns u, self') \<Rightarrow> (Returns (), self')
      | (Raises e, self') \<Rightarrow>
          (case e of
             WebSocketClosed \<Rightarrow> (Returns (), set_status self' 403)
           | UnexpectedMessage \<Rightarrow> (Returns (), set_status self' 500)
           | OtherException c \<Rightarrow> (Returns (), set_status self' 500))
      | (Suspended, self') \<Rightarrow> (Suspended, self'))"

text \<open>
  \<^verbatim>\<open>
  def __call__(self, app: ASGIApp, initial_body: bytes) -> Response:
      self.logger.debug("WebSocket cycle starting.")
      self.initial_body = initial_body
      # self.app_queue.put_nowait({"type": "websocket.connect"})
      asgi_instance = self.run(app)
      asgi_task = self.loop.create_task(asgi_instance)
      self.loop.run_until_complete(asgi_task)

      return self.response
  \<close>
  \<open>run_until_complete\<close> returns when the task has returned, raises what the task
  raised, and does not return while the task is suspended.
\<close>

definition call ::
  "'s WebSocketCycle \<Rightarrow> 's ASGIApp \<Rightarrow> bytes \<Rightarrow> Response outcome \<times> 's WebSocketCycle" where
  "call self app b =
     (case run (self\<lparr>initial_body := Some b\<rparr>) app of
        (Returns u, self') \<Rightarrow> (Returns (response self'), self')
      | (Raises e, self') \<Rightarrow> (Raises e, self')
      | (Suspended, self') \<Rightarrow> (Suspended, self'))"

subsection \<open>Observations used in the statements\<close>

text \<open>
  The outcome of the application's coroutine in the invocation \<open>call self app b\<close>: what
  \<open>await app(self.request.scope, self.receive, self.send)\<close> does inside \<open>run\<close>, before
  any handler is chosen.
\<close>

definition app_outcome :: "'s WebSocketCycle \<Rightarrow> 's ASGIApp \<Rightarrow> bytes \<Rightarrow> unit outcome" where
  "app_outcome self app b =
     fst (await_app (app (scope (request self))) (self\<lparr>initial_body := Some b\<rparr>))"

text \<open>The send capability called once for each message of a list, in order.\<close>

fun send_all :: "'s WebSocketCycle \<Rightarrow> message list \<Rightarrow> 's WebSocketCycle" where
  "send_all self [] = self"
| "send_all self (m # ms) = send_all (send self m) ms"

text \<open>
  The receive capability called \<open>n\<close> times in a row; the result lists what the calls
  returned, and is \<open>None\<close> when one of them finds the queue empty.
\<close>

fun receive_n :: "nat \<Rightarrow> 's WebSocketCycle \<Rightarrow> (message list \<times> 's WebSocketCycle) option" where
  "receive_n 0 self = Some ([], self)"
| "receive_n (Suc n) self =
     (case receive self of
        None \<Rightarrow> None
      | Some (m, self') \<Rightarrow>
          (case receive_n n self' of
             None \<Rightarrow> None
           | Some (ms, self'') \<Rightarrow> Some (m # ms, self'')))"

subsection \<open>Concrete requests, messages and applications\<close>

definition example_request :: "string WsRequest" where
  "example_request = \<lparr>scope = ''/chat''\<rparr>"

definition accept_message :: message where
  "accept_message = [''type'' \<mapsto> AStr ''websocket.accept'']"

definition text_message :: "string \<Rightarrow> message" where
  "text_message t = [''type'' \<mapsto> AStr ''websocket.send'', ''text'' \<mapsto> AStr t]"

text \<open>\<^verbatim>\<open>async def app(scope, receive, send): return\<close>\<close>

definition returning_app :: "string ASGIApp" where
  "returning_app s = Return"

text \<open>\<^verbatim>\<open>async def app(scope, receive, send): await send({"type": "websocket.accept"})\<close>\<close>

definition accepting_app :: "string ASGIApp" where
  "accepting_app s = Send accept_message Return"

text \<open>\<^verbatim>\<open>async def app(scope, receive, send): raise WebSocketClosed()\<close>\<close>

definition rejecting_app :: "string ASGIApp" where
  "rejecting_app s = Raise WebSocketClosed"

text \<open>\<^verbatim>\<open>async def app(scope, receive, send): event = await receive()\<close>\<close>

definition receiving_app :: "string ASGIApp" where
  "receiving_app s = Receive (\<lambda>m. Return)"

text \<open>\<^verbatim>\<open>async def app(scope, receive, send): raise UnexpectedMessage()\<close>\<close>

definition unexpected_app :: "string ASGIApp" where
  "unexpected_app s = Raise UnexpectedMessage"

text \<open>
  \<^verbatim>\<open>
  async def app(scope, receive, send):
      await send({"type": "websocket.send", "text": "partial"})
      raise RuntimeError()
  \<close>
\<close>

definition faulty_app :: "string ASGIApp" where
  "faulty_app s = Send (text_message ''partial'') (Raise (OtherException ''RuntimeError''))"

definition close_message :: message where
  "close_message = [''type'' \<mapsto> AStr ''websocket.close'', ''code'' \<mapsto> AInt 1000]"

text \<open>
  \<^verbatim>\<open>
  async def app(scope, receive, send):
      await send({"type": "websocket.close", "code": 1000})
  \<close>
\<close>

definition closing_app :: "string ASGIApp" where
  "closing_app s = Send close_message Return"

text \<open>
  \<^verbatim>\<open>
  async def app(scope, receive, send):
      await send({"type": "websocket.close", "code": 1000})
      raise WebSocketClosed()
  \<close>
\<close>

definition close_rejecting_app :: "string ASGIApp" where
  "close_rejecting_app s = Send close_message (Raise WebSocketClosed)"

section \<open>Properties\<close>

subsection \<open>What running the application can change\<close>

text \<open>
  Whatever the application does, the cycle it leaves differs from the one it started
  with in the queue at most: \<open>receive\<close> and \<open>send\<close> assign nothing else.
\<close>

lemma await_app_frame:
  "\<exists>q. snd (await_app a self) = self\<lparr>app_queue := q\<rparr>"
proof (induction a arbitrary: self)
  case Return
  have "self = self\<lparr>app_queue := app_queue self\<rparr>" by simp
  then show ?case by (metis await_app.simps(1) snd_conv)
next
  case (Raise e)
  have "self = self\<lparr>app_queue := app_queue self\<rparr>" by simp
  then show ?case by (metis await_app.simps(2) snd_conv)
next
  case (Receive k)
  show ?case
  proof (cases "app_queue self")
    case Nil
    then have "snd (await_app (Receive k) self) = self\<lparr>app_queue := []\<rparr>"
      by (simp add: receive_def)
    then show ?thesis by blast
  next
    case (Cons m q)
    then have "await_app (Receive k) self = await_app (k m) (self\<lparr>app_queue := q\<rparr>)"
      by (simp add: receive_def)
    moreover obtain q' where
      "snd (await_app (k m) (self\<lparr>app_queue := q\<rparr>)) = self\<lparr>app_queue := q\<rparr>\<lparr>app_queue := q'\<rparr>"
      using Receive.IH [of "k m" "self\<lparr>app_queue := q\<rparr>"] by auto
    ultimately have "snd (await_app (Receive k) self) = self\<lparr>app_queue := q'\<rparr>"
      by simp
    then show ?thesis by blast
  qed
next
  case (Send m k)
  obtain q' where "snd (await_app k (send self m)) = (send self m)\<lparr>app_queue := q'\<rparr>"
    using Send.IH [of "send self m"] by auto
  then have "snd (await_app (Send m k) self) = self\<lparr>app_queue := q'\<rparr>"
    by (simp add: send_def)
  then show ?case by blast
next
  case Forever
  have "self = self\<lparr>app_queue := app_queue self\<rparr>" by simp
  then show ?case by (metis await_app.simps(5) snd_conv)
qed

lemma state_await_app: "state (snd (await_app a self)) = state self"
proof -
  obtain q where "snd (await_app a self) = self\<lparr>app_queue := q\<rparr>"
    using await_app_frame by blast
  then show ?thesis by simp
qed

lemma response_await_app: "response (snd (await_app a self)) = response self"
proof -
  obtain q where "snd (await_app a self) = self\<lparr>app_queue := q\<rparr>"
    using await_app_frame by blast
  then show ?thesis by simp
qed

text \<open>The three handlers of \<open>run\<close>, folded into one case.\<close>

lemma run_cases:
  "run self app =
     (case await_app (app (scope (request self))) self of
        (Returns u, s) \<Rightarrow> (Returns (), s)
      | (Raises e, s) \<Rightarrow> (Returns (), set_status s (if e = WebSocketClosed then 403 else 500))
      | (Suspended, s) \<Rightarrow> (Suspended, s))"
  by (simp add: run_def split: prod.splits outcome.splits exn.splits)

lemma state_run: "state (snd (run self app)) = state self"
  using state_await_app [of "app (scope (request self))" self]
  by (auto simp: run_cases set_status_def split: prod.splits outcome.splits)

lemma state_call: "state (snd (call self app b)) = state self"
  using state_run [of "self\<lparr>initial_body := Some b\<rparr>" app]
  by (auto simp: call_def split: prod.splits outcome.splits)

lemma call_of_outcome:
  "call self app b =
     (case await_app (app (scope (request self))) (self\<lparr>initial_body := Some b\<rparr>) of
        (Returns u, s) \<Rightarrow> (Returns (response s), s)
      | (Raises e, s) \<Rightarrow>
          (Returns ((response s)\<lparr>status := if e = WebSocketClosed then 403 else 500\<rparr>),
           set_status s (if e = WebSocketClosed then 403 else 500))
      | (Suspended, s) \<Rightarrow> (Suspended, s))"
  by (simp add: call_def run_cases set_status_def split: prod.splits outcome.splits)

subsection \<open>The queue under repeated sends and receives\<close>

lemma send_all_eq: "send_all self ms = self\<lparr>app_queue := app_queue self @ ms\<rparr>"
  by (induction ms arbitrary: self) (simp_all add: send_def)

lemma receive_n_drains:
  "app_queue self = q \<Longrightarrow> receive_n (length q) self = Some (q, self\<lparr>app_queue := []\<rparr>)"
  by (induction q arbitrary: self) (simp_all add: receive_def)

lemma receive_n_beyond:
  "app_queue self = q \<Longrightarrow> receive_n (Suc (length q)) self = None"
  by (induction q arbitrary: self) (simp_all add: receive_def)

subsection \<open>The event of the invocation\<close>

text \<open>
  C1. The claim: in every invocation the controller puts exactly one event, matching
  the message type, into the application queue before or while the application runs.
  The code puts none (the only \<open>put_nowait\<close> of \<open>__call__\<close> is commented out): a new
  cycle has an empty queue, \<open>__call__\<close> leaves the queue as it found it when the
  application does nothing, and an application whose first action is \<open>receive()\<close> on
  a new cycle is never resumed, for every message type.
\<close>

theorem call_injects_no_event:
  "app_queue (new_WebSocketCycle req mt cid st) = []
   \<and> app_queue (snd (call self (\<lambda>s. Return) b)) = app_queue self
   \<and> fst (call (new_WebSocketCycle req mt cid st) (\<lambda>s. Receive k) b) = Suspended"
  by (simp add: call_def run_def new_WebSocketCycle_def post_init_def receive_def)

text \<open>
  C2. The claim: in a \<open>message\<close> invocation with body \<open>b\<close>, an application that calls
  \<open>receive()\<close> first obtains a receive event carrying \<open>b\<close>. In the code such an
  application obtains no event at all: whatever it would do with the event (\<open>k\<close>), the
  call is suspended with the queue still empty, and \<open>b\<close> has only been stored in the
  attribute \<open>initial_body\<close>.
\<close>

theorem message_body_not_delivered:
  "call (new_WebSocketCycle req ''message'' cid st) (\<lambda>s. Receive k) b
     = (Suspended, (new_WebSocketCycle req ''message'' cid st)\<lparr>initial_body := Some b\<rparr>)"
  by (simp add: call_def run_def new_WebSocketCycle_def post_init_def receive_def)

subsection \<open>Status and state by message type\<close>

text \<open>
  The docstring of \<open>WebSocketCycleState\<close> describes \<open>CONNECTING\<close> as the initial state,
  \<open>HANDSHAKE\<close> as the state once the connection is established and the connect event
  pushed, and \<open>CLOSED\<close> as the state reached in response to a disconnect event or when
  a connection is rejected. No method of the class assigns \<open>state\<close>, so none of these
  states is ever reached from another. The three theorems below run the code at
  concrete invocations: the status is the documented one, the state is the one the
  cycle was constructed with.
\<close>

text \<open>
  C3. The claim: in a \<open>connect\<close> invocation in which the application accepts, the
  result has status 200 and the final state is \<open>HANDSHAKE\<close>. In the code, on a new
  cycle, an application that sends \<open>websocket.accept\<close> and returns gets the result
  \<open>Response(200, [], b"")\<close>, and the state is still \<open>CONNECTING\<close>: the status is as
  claimed, the state is not.
\<close>

theorem connect_accept_state_stays_connecting:
  "app_outcome (new_WebSocketCycle example_request ''connect'' ''c1'' None) accepting_app []
     = Returns ()
   \<and> fst (call (new_WebSocketCycle example_request ''connect'' ''c1'' None) accepting_app [])
       = Returns \<lparr>status = 200, headers = [], body = []\<rparr>
   \<and> state (snd (call (new_WebSocketCycle example_request ''connect'' ''c1'' None)
                     accepting_app []))
       = CONNECTING
   \<and> state (snd (call (new_WebSocketCycle example_request ''connect'' ''c1'' None)
                     accepting_app []))
       \<noteq> HANDSHAKE"
  by (simp add: app_outcome_def call_def run_def new_WebSocketCycle_def post_init_def send_def
      accepting_app_def)

text \<open>
  C4. The claim: in a \<open>connect\<close> invocation in which the application rejects (its task
  raises \<open>WebSocketClosed\<close>), the result has status 403 and the final state is
  \<open>CLOSED\<close>. In the code, on a new cycle, an application that raises
  \<open>WebSocketClosed\<close>, at once or after sending \<open>websocket.close\<close>, gets the result
  \<open>Response(403, [], b"")\<close>, and the state is still \<open>CONNECTING\<close>: the status is as
  claimed, the state is not.
\<close>

theorem connect_reject_state_stays_connecting:
  "app_outcome (new_WebSocketCycle example_request ''connect'' ''c1'' None) rejecting_app []
     = Raises WebSocketClosed
   \<and> fst (call (new_WebSocketCycle example_request ''connect'' ''c1'' None) rejecting_app [])
       = Returns \<lparr>status = 403, headers = [], body = []\<rparr>
   \<and> state (snd (call (new_WebSocketCycle example_request ''connect'' ''c1'' None)
                     rejecting_app []))
       = CONNECTING
   \<and> fst (call (new_WebSocketCycle example_request ''connect'' ''c1'' None)
              close_rejecting_app [])
       = Returns \<lparr>status = 403, headers = [], body = []\<rparr>
   \<and> state (snd (call (new_WebSocketCycle example_request ''connect'' ''c1'' None)
                     close_rejecting_app []))
       = CONNECTING
   \<and> state (snd (call (new_WebSocketCycle example_request ''connect'' ''c1'' None)
                     rejecting_app []))
       \<noteq> CLOSED"
  by (simp add: app_outcome_def call_def run_def new_WebSocketCycle_def post_init_def send_def
      set_status_def rejecting_app_def close_rejecting_app_def)

text \<open>
  C7. The claim: in a \<open>disconnect\<close> invocation in which the application completes
  without raising, the result has status 200 and the final state is \<open>CLOSED\<close>. In the
  code, on a cycle constructed in the state \<open>DISCONNECTING\<close>, an application that
  returns at once, and one that sends \<open>websocket.close\<close> and returns, both get the
  result \<open>Response(200, [], b"")\<close>, and the state is still \<open>DISCONNECTING\<close>: the status
  is as claimed, the state is not.
\<close>

theorem disconnect_state_stays_disconnecting:
  "app_outcome (new_WebSocketCycle example_request ''disconnect'' ''c1'' (Some DISCONNECTING))
     returning_app [] = Returns ()
   \<and> fst (call (new_WebSocketCycle example_request ''disconnect'' ''c1'' (Some DISCONNECTING))
              returning_app [])
       = Returns \<lparr>status = 200, headers = [], body = []\<rparr>
   \<and> state (snd (call (new_WebSocketCycle example_request ''disconnect'' ''c1''
                        (Some DISCONNECTING))
                     returning_app []))
       = DISCONNECTING
   \<and> app_outcome (new_WebSocketCycle example_request ''disconnect'' ''c1'' (Some DISCONNECTING))
        closing_app [] = Returns ()
   \<and> fst (call (new_WebSocketCycle example_request ''disconnect'' ''c1'' (Some DISCONNECTING))
              closing_app [])
       = Returns \<lparr>status = 200, headers = [], body = []\<rparr>
   \<and> state (snd (call (new_WebSocketCycle example_request ''disconnect'' ''c1''
                        (Some DISCONNECTING))
                     closing_app []))
       = DISCONNECTING
   \<and> state (snd (call (new_WebSocketCycle example_request ''disconnect'' ''c1''
                        (Some DISCONNECTING))
                     returning_app []))
       \<noteq> CLOSED"
  by (simp add: app_outcome_def call_def run_def new_WebSocketCycle_def post_init_def send_def
      returning_app_def closing_app_def)

subsection \<open>Failures of the application\<close>

text \<open>
  C5. Whatever the cycle, the application and the body: if the application task
  raises \<open>WebSocketClosed\<close> the call returns a result with status 403; if it raises
  \<open>UnexpectedMessage\<close>, or any other exception, the call returns a result with status
  500, whatever the message type; whenever the application task comes to an end, by
  returning or by raising, the call returns a result; and in no case does the call
  raise. (An application that is suspended for ever keeps the call from returning;
  nothing is propagated then either.)
\<close>

theorem failures_become_statuses:
  "(app_outcome self app b = Raises WebSocketClosed \<longrightarrow>
      (\<exists>r. fst (call self app b) = Returns r \<and> status r = 403))
   \<and> (app_outcome self app b = Raises UnexpectedMessage \<longrightarrow>
      (\<exists>r. fst (call self app b) = Returns r \<and> status r = 500))
   \<and> (app_outcome self app b = Raises (OtherException c) \<longrightarrow>
      (\<exists>r. fst (call self app b) = Returns r \<and> status r = 500))
   \<and> (app_outcome self app b \<noteq> Suspended \<longrightarrow> (\<exists>r. fst (call self app b) = Returns r))
   \<and> (\<forall>e. fst (call self app b) \<noteq> Raises e)"
  by (cases "await_app (app (scope (request self))) (self\<lparr>initial_body := Some b\<rparr>)")
     (auto simp: app_outcome_def call_of_outcome split: outcome.splits)

theorem failures_become_statuses_witness:
  "app_outcome (new_WebSocketCycle example_request ''connect'' ''c1'' None) rejecting_app []
     = Raises WebSocketClosed
   \<and> (\<exists>r. fst (call (new_WebSocketCycle example_request ''connect'' ''c1'' None)
                  rejecting_app []) = Returns r \<and> status r = 403)
   \<and> app_outcome (new_WebSocketCycle example_request ''message'' ''c1'' (Some RESPONSE))
        unexpected_app [] = Raises UnexpectedMessage
   \<and> (\<exists>r. fst (call (new_WebSocketCycle example_request ''message'' ''c1'' (Some RESPONSE))
                  unexpected_app []) = Returns r \<and> status r = 500)
   \<and> app_outcome (new_WebSocketCycle example_request ''disconnect'' ''c1'' None)
        faulty_app [] = Raises (OtherException ''RuntimeError'')
   \<and> (\<exists>r. fst (call (new_WebSocketCycle example_request ''disconnect'' ''c1'' None)
                  faulty_app []) = Returns r \<and> status r = 500)"
proof -
  have h1: "app_outcome (new_WebSocketCycle example_request ''connect'' ''c1'' None)
              rejecting_app [] = Raises WebSocketClosed"
    by (simp add: app_outcome_def new_WebSocketCycle_def post_init_def rejecting_app_def)
  have h2: "app_outcome (new_WebSocketCycle example_request ''message'' ''c1'' (Some RESPONSE))
              unexpected_app [] = Raises UnexpectedMessage"
    by (simp add: app_outcome_def new_WebSocketCycle_def post_init_def unexpected_app_def)
  have h3: "app_outcome (new_WebSocketCycle example_request ''disconnect'' ''c1'' None)
              faulty_app [] = Raises (OtherException ''RuntimeError'')"
    by (simp add: app_outcome_def new_WebSocketCycle_def post_init_def faulty_app_def send_def)
  show ?thesis
    using h1 h2 h3
      failures_become_statuses [of "new_WebSocketCycle example_request ''connect'' ''c1'' None"
        rejecting_app "[]" "''RuntimeError''"]
      failures_become_statuses [of "new_WebSocketCycle example_request ''message'' ''c1'' (Some RESPONSE)"
        unexpected_app "[]" "''RuntimeError''"]
      failures_become_statuses [of "new_WebSocketCycle example_request ''disconnect'' ''c1'' None"
        faulty_app "[]" "''RuntimeError''"]
    by simp
qed

subsection \<open>The queue\<close>

text \<open>
  C6. The channel is first in, first out, and loses nothing: on a cycle whose queue is
  empty, after the messages \<open>ms\<close> have been sent one by one, \<open>length ms\<close> calls of
  \<open>receive\<close> return exactly \<open>ms\<close>, in the order sent, and leave the cycle as it was
  before the sends; one more call finds the queue empty. On a cycle whose queue
  already holds messages, these come out first, in their order, and then \<open>ms\<close>.
\<close>

theorem queue_is_fifo:
  assumes "app_queue self = []"
  shows "receive_n (length ms) (send_all self ms) = Some (ms, self)
         \<and> receive_n (Suc (length ms)) (send_all self ms) = None
         \<and> receive_n (length (app_queue other) + length ms) (send_all other ms)
             = Some (app_queue other @ ms, other\<lparr>app_queue := []\<rparr>)"
proof -
  have q: "app_queue (send_all self ms) = ms"
    using assms by (simp add: send_all_eq)
  have e: "(send_all self ms)\<lparr>app_queue := []\<rparr> = self"
    using assms by (simp add: send_all_eq)
  have first: "receive_n (length ms) (send_all self ms) = Some (ms, self)"
    using receive_n_drains [OF q] e by simp
  have beyond: "receive_n (Suc (length ms)) (send_all self ms) = None"
    using receive_n_beyond [OF q] .
  have "app_queue (send_all other ms) = app_queue other @ ms"
    by (simp add: send_all_eq)
  from receive_n_drains [OF this]
  have "receive_n (length (app_queue other) + length ms) (send_all other ms)
          = Some (app_queue other @ ms, other\<lparr>app_queue := []\<rparr>)"
    by (simp add: send_all_eq)
  with first beyond show ?thesis by simp
qed

theorem queue_is_fifo_witness:
  "app_queue (new_WebSocketCycle example_request ''message'' ''c1'' None) = []
   \<and> receive_n (length [text_message ''a'', accept_message, text_message ''a''])
        (send_all (new_WebSocketCycle example_request ''message'' ''c1'' None)
           [text_message ''a'', accept_message, text_message ''a''])
       = Some ([text_message ''a'', accept_message, text_message ''a''],
               new_WebSocketCycle example_request ''message'' ''c1'' None)"
proof -
  have h: "app_queue (new_WebSocketCycle example_request ''message'' ''c1'' None) = []"
    by (simp add: new_WebSocketCycle_def post_init_def)
  show ?thesis
    using h
      queue_is_fifo [OF h, of "[text_message ''a'', accept_message, text_message ''a'']",
        THEN conjunct1]
    by simp
qed

subsection \<open>What the methods leave alone\<close>

text \<open>
  C8. No operation of the cycle writes \<open>state\<close>: after \<open>__call__\<close>, whatever the
  application did (returned, raised, was suspended), the state is the one before the
  call; the same holds for \<open>run\<close>, \<open>send\<close>, \<open>receive\<close> and \<open>__post_init__\<close>; a cycle
  constructed without a state is in \<open>CONNECTING\<close>, one constructed with a state is in
  that state, and a cycle constructed without a state is still in \<open>CONNECTING\<close> after
  the call.
\<close>

theorem state_never_written:
  "state (snd (call self app b)) = state self
   \<and> state (snd (run self app)) = state self
   \<and> state (send self m) = state self
   \<and> (\<forall>m' self'. receive self = Some (m', self') \<longrightarrow> state self' = state self)
   \<and> state (post_init self) = state self
   \<and> state (new_WebSocketCycle req mt cid None) = CONNECTING
   \<and> state (new_WebSocketCycle req mt cid (Some st)) = st
   \<and> state (snd (call (new_WebSocketCycle req mt cid None) app' b)) = CONNECTING"
proof -
  have "\<forall>m' self'. receive self = Some (m', self') \<longrightarrow> state self' = state self"
    by (auto simp: receive_def split: list.splits)
  moreover have "state (snd (call (new_WebSocketCycle req mt cid None) app' b)) = CONNECTING"
    by (simp add: state_call) (simp add: new_WebSocketCycle_def post_init_def)
  ultimately show ?thesis
    by (simp add: state_call state_run send_def post_init_def new_WebSocketCycle_def)
qed

theorem state_never_written_witness:
  "receive (send (new_WebSocketCycle example_request ''message'' ''c1'' (Some RESPONSE))
              (text_message ''hi''))
     = Some (text_message ''hi'', new_WebSocketCycle example_request ''message'' ''c1'' (Some RESPONSE))
   \<and> state (new_WebSocketCycle example_request ''message'' ''c1'' (Some RESPONSE))
       = state (send (new_WebSocketCycle example_request ''message'' ''c1'' (Some RESPONSE))
                  (text_message ''hi''))
   \<and> state (snd (call (new_WebSocketCycle example_request ''connect'' ''c1'' None)
                     rejecting_app [])) = CONNECTING"
proof -
  have h: "receive (send (new_WebSocketCycle example_request ''message'' ''c1'' (Some RESPONSE))
                      (text_message ''hi''))
             = Some (text_message ''hi'',
                     new_WebSocketCycle example_request ''message'' ''c1'' (Some RESPONSE))"
    by (simp add: receive_def send_def new_WebSocketCycle_def post_init_def)
  show ?thesis
    using h
      state_never_written [of "send (new_WebSocketCycle example_request ''message'' ''c1'' (Some RESPONSE))
                                 (text_message ''hi'')" returning_app "[]" "text_message ''hi''"
                              example_request "''connect''" "''c1''" RESPONSE rejecting_app]
    by simp
qed

text \<open>
  C9. \<open>send\<close> and \<open>receive\<close> work on the same queue: on a cycle whose queue is empty,
  \<open>send(e)\<close> followed by \<open>receive()\<close> returns \<open>e\<close> and leaves the cycle as it was, so an
  application that sends \<open>e\<close> and then receives goes on with its own \<open>e\<close>; \<open>send\<close>
  changes neither the response nor the body buffer; and whatever the application
  sends or receives, the response is the same after it as before.
\<close>

theorem send_feeds_receive:
  "(app_queue self = [] \<longrightarrow>
      receive (send self e) = Some (e, self)
      \<and> await_app (Send e (Receive k)) self = await_app (k e) self)
   \<and> response (send self e) = response self
   \<and> body_io (send self e) = body_io self
   \<and> response (snd (await_app a self)) = response self"
proof -
  have echo: "receive (send self e) = Some (e, self)" if "app_queue self = []"
  proof -
    have "self\<lparr>app_queue := []\<rparr> = self"
      using that by simp
    then show ?thesis
      using that by (simp add: receive_def send_def)
  qed
  then have "await_app (Send e (Receive k)) self = await_app (k e) self" if "app_queue self = []"
    using that by simp
  with echo show ?thesis
    by (simp add: response_await_app send_def)
qed

theorem send_feeds_receive_witness:
  "app_queue (new_WebSocketCycle example_request ''message'' ''c1'' None) = []
   \<and> receive (send (new_WebSocketCycle example_request ''message'' ''c1'' None) (text_message ''hi''))
       = Some (text_message ''hi'', new_WebSocketCycle example_request ''message'' ''c1'' None)
   \<and> response (snd (await_app (faulty_app ''/chat'')
                      (new_WebSocketCycle example_request ''message'' ''c1'' None)))
       = \<lparr>status = 200, headers = [], body = []\<rparr>"
proof -
  have h: "app_queue (new_WebSocketCycle example_request ''message'' ''c1'' None) = []"
    by (simp add: new_WebSocketCycle_def post_init_def)
  have r: "response (new_WebSocketCycle example_request ''message'' ''c1'' None)
             = \<lparr>status = 200, headers = [], body = []\<rparr>"
    by (simp add: new_WebSocketCycle_def post_init_def)
  show ?thesis
    using h r
      send_feeds_receive [of "new_WebSocketCycle example_request ''message'' ''c1'' None"
        "text_message ''hi''" "\<lambda>m. Return" "faulty_app ''/chat''"]
    by simp
qed

text \<open>
  C10. On a new cycle, for every message type: if the application task completes
  without raising, the call returns exactly \<open>Response(200, [], b"")\<close>, however many
  events the application sent; whenever the call returns, the headers and the body of
  the result are empty and the status is 200, 403 or 500. On any cycle: a completed
  application leaves the response as it was, and no call changes the headers or the
  body of the response.
\<close>

theorem completed_call_returns_initial_response:
  "(app_outcome (new_WebSocketCycle req mt cid st) app b = Returns () \<longrightarrow>
      fst (call (new_WebSocketCycle req mt cid st) app b)
        = Returns \<lparr>status = 200, headers = [], body = []\<rparr>)
   \<and> (\<forall>r. fst (call (new_WebSocketCycle req mt cid st) app b) = Returns r \<longrightarrow>
          headers r = [] \<and> body r = [] \<and> (status r = 200 \<or> status r = 403 \<or> status r = 500))
   \<and> (app_outcome self app' b' = Returns () \<longrightarrow>
          response (snd (call self app' b')) = response self)
   \<and> headers (response (snd (call self app' b'))) = headers (response self)
   \<and> body (response (snd (call self app' b'))) = body (response self)"
proof -
  let ?c = "new_WebSocketCycle req mt cid st"
  have fresh: "response (?c\<lparr>initial_body := Some b\<rparr>) = \<lparr>status = 200, headers = [], body = []\<rparr>"
    by (simp add: new_WebSocketCycle_def post_init_def)
  have keep: "response (snd (await_app (app (scope (request ?c))) (?c\<lparr>initial_body := Some b\<rparr>)))
                = \<lparr>status = 200, headers = [], body = []\<rparr>"
    using fresh by (simp add: response_await_app)
  have keep': "response (snd (await_app (app' (scope (request self))) (self\<lparr>initial_body := Some b'\<rparr>)))
                = response self"
    by (simp add: response_await_app)
  have 1: "app_outcome ?c app b = Returns () \<longrightarrow>
      fst (call ?c app b) = Returns \<lparr>status = 200, headers = [], body = []\<rparr>"
    using keep
    by (cases "await_app (app (scope (request ?c))) (?c\<lparr>initial_body := Some b\<rparr>)")
       (auto simp: app_outcome_def call_of_outcome split: outcome.splits)
  have 2: "\<forall>r. fst (call ?c app b) = Returns r \<longrightarrow>
          headers r = [] \<and> body r = [] \<and> (status r = 200 \<or> status r = 403 \<or> status r = 500)"
    using keep
    by (cases "await_app (app (scope (request ?c))) (?c\<lparr>initial_body := Some b\<rparr>)")
       (auto simp: call_of_outcome split: outcome.splits)
  have 3: "app_outcome self app' b' = Returns () \<longrightarrow>
          response (snd (call self app' b')) = response self"
    using keep'
    by (cases "await_app (app' (scope (request self))) (self\<lparr>initial_body := Some b'\<rparr>)")
       (auto simp: app_outcome_def call_of_outcome split: outcome.splits)
  have 4: "headers (response (snd (call self app' b'))) = headers (response self)
           \<and> body (response (snd (call self app' b'))) = body (response self)"
    using keep'
    by (cases "await_app (app' (scope (request self))) (self\<lparr>initial_body := Some b'\<rparr>)")
       (auto simp: call_of_outcome set_status_def split: outcome.splits)
  from 1 2 3 4 show ?thesis by blast
qed

theorem completed_call_returns_initial_response_witness:
  "app_outcome (new_WebSocketCycle example_request ''message'' ''c1'' (Some RESPONSE))
     accepting_app [] = Returns ()
   \<and> fst (call (new_WebSocketCycle example_request ''message'' ''c1'' (Some RESPONSE))
              accepting_app [])
       = Returns \<lparr>status = 200, headers = [], body = []\<rparr>
   \<and> response (snd (call (new_WebSocketCycle example_request ''message'' ''c1'' (Some RESPONSE))
                        accepting_app []))
       = response (new_WebSocketCycle example_request ''message'' ''c1'' (Some RESPONSE))"
proof -
  have h: "app_outcome (new_WebSocketCycle example_request ''message'' ''c1'' (Some RESPONSE))
             accepting_app [] = Returns ()"
    by (simp add: app_outcome_def new_WebSocketCycle_def post_init_def send_def
        accepting_app_def)
  show ?thesis
    using h
      completed_call_returns_initial_response
        [of example_request "''message''" "''c1''" "Some RESPONSE" accepting_app "[]"
            "new_WebSocketCycle example_request ''message'' ''c1'' (Some RESPONSE)"
            accepting_app "[]"]
    by simp
qed

end
